theory Spec2Isabelle
  imports Main
begin

section \<open>The juice factory notebook\<close>

text \<open>
  The program is the notebook \<^verbatim>\<open>Juice_Product_Mix_Optimization.ipynb\<close>: it reads a
  product table, declares one integer variable per product, adds the profit objective and
  the two resource constraints to a PuLP problem, solves it, copies the solved values into
  a dictionary, raises the machine-time budget by 20 and does the same again.

  The cells are modelled as functions on a record of the notebook's global names. The
  linear-programming library is not part of the notebook: of its objects the model keeps
  the attributes the cells read and write, and the solver is a parameter of the cells
  that call it. Quantities are integers here (the table holds integers, the variables are
  declared \<^verbatim>\<open>cat='Integer'\<close>); the library reports them as floating-point numbers such
  as \<^verbatim>\<open>56.0\<close>.
\<close>

subsection \<open>The product table\<close>

text \<open>One row of \<^verbatim>\<open>juice_data.xlsx\<close>: the four numeric columns.\<close>

record ProductRecord =
  Profit :: int
  MachineTime :: int
  LaborTime :: int
  MaxUnits :: int

text \<open>
  \<^verbatim>\<open>data\<close> after \<^verbatim>\<open>set_index("Product")\<close>: the rows in table order, each under its
  product name. The labels are taken to be unique (with a repeated label
  \<^verbatim>\<open>data.loc[p, col]\<close> is a column slice, not a number): the theorems that depend on it
  assume \<open>distinct (index data)\<close>.
\<close>

type_synonym DataFrame = "(string \<times> ProductRecord) list"

datatype error = KeyError string

definition index :: "DataFrame \<Rightarrow> string list" where
  "index data = map fst data"

definition loc :: "DataFrame \<Rightarrow> string \<Rightarrow> error + ProductRecord" where
  "loc data p = (case map_of data p of None \<Rightarrow> Inl (KeyError p) | Some r \<Rightarrow> Inr r)"

text \<open>The table printed by the notebook's loading cell.\<close>

definition juice_data :: DataFrame where
  "juice_data =
     [(''Apple Juice'', \<lparr>Profit = 25, MachineTime = 3, LaborTime = 2, MaxUnits = 60\<rparr>),
      (''Orange Juice'', \<lparr>Profit = 30, MachineTime = 2, LaborTime = 3, MaxUnits = 60\<rparr>),
      (''Mixed Fruit Juice'', \<lparr>Profit = 40, MachineTime = 4, LaborTime = 4, MaxUnits = 60\<rparr>)]"

subsection \<open>Python dictionaries\<close>

text \<open>
  A dictionary keeps its keys in insertion order; assigning to a key that is present
  replaces the value where the key stands, and reading a missing key raises
  \<^verbatim>\<open>KeyError\<close>.
\<close>

fun dict_set :: "(string \<times> 'v) list \<Rightarrow> string \<Rightarrow> 'v \<Rightarrow> (string \<times> 'v) list" where
  "dict_set [] k v = [(k, v)]"
| "dict_set ((k', v') # d) k v =
     (if k' = k then (k', v) # d else (k', v') # dict_set d k v)"

definition dict_get :: "(string \<times> 'v) list \<Rightarrow> string \<Rightarrow> error + 'v" where
  "dict_get d k = (case map_of d k of None \<Rightarrow> Inl (KeyError k) | Some v \<Rightarrow> Inr v)"

subsection \<open>The library's objects\<close>

datatype LpCategory = LpContinuous | LpInteger | LpBinary

text \<open>
  A variable object. \<open>ident\<close> is the object's identity (the variables are numbered in
  the order in which they are created); two objects may carry the same \<open>name\<close>. The
  solved value of a variable is kept apart, in the notebook's \<open>varValue\<close> store, since
  it is the one attribute a solve overwrites.
\<close>

record LpVariable =
  ident :: nat
  name :: string
  lowBound :: int
  upBound :: int
  cat :: LpCategory

text \<open>
  A linear expression: its terms, each a variable (by identity) and a coefficient. A
  constraint of this program is always \<open>expression \<le> rhs\<close>.
\<close>

type_synonym LpAffineExpression = "(nat \<times> int) list"

record LpConstraint =
  expr :: LpAffineExpression
  rhs :: int

datatype LpStatus =
  LpStatusNotSolved | LpStatusOptimal | LpStatusInfeasible | LpStatusUnbounded
| LpStatusUndefined

fun LpStatus_str :: "LpStatus \<Rightarrow> string" where
  "LpStatus_str LpStatusNotSolved = ''Not Solved''"
| "LpStatus_str LpStatusOptimal = ''Optimal''"
| "LpStatus_str LpStatusInfeasible = ''Infeasible''"
| "LpStatus_str LpStatusUnbounded = ''Unbounded''"
| "LpStatus_str LpStatusUndefined = ''Undefined''"

record LpProblem =
  objective :: LpAffineExpression
  constraints :: "(string \<times> LpConstraint) list"
  status :: LpStatus

text \<open>\<^verbatim>\<open>constraint.changeRHS(v)\<close>: the right-hand side is the only attribute written.\<close>

definition changeRHS :: "LpConstraint \<Rightarrow> int \<Rightarrow> LpConstraint" where
  "changeRHS c v = c\<lparr>rhs := v\<rparr>"

text \<open>
  \<^verbatim>\<open>value(expression)\<close>: the sum of coefficient times solved value, and \<^verbatim>\<open>None\<close> as
  soon as a variable of the expression has no value.
\<close>

fun expr_value :: "(nat \<Rightarrow> int option) \<Rightarrow> LpAffineExpression \<Rightarrow> int option" where
  "expr_value vv [] = Some 0"
| "expr_value vv ((i, c) # ts) =
     (case vv i of
        None \<Rightarrow> None
      | Some x \<Rightarrow> (case expr_value vv ts of None \<Rightarrow> None | Some s \<Rightarrow> Some (x * c + s)))"

subsection \<open>The notebook's state\<close>

record notebook =
  data :: DataFrame
  max_machine_time :: int
  max_labor_time :: int
  juice_vars :: "(string \<times> LpVariable) list"
  varValue :: "nat \<Rightarrow> int option"
  model :: LpProblem
  stdout :: "string list"
  results :: "(string \<times> int option) list option"
  sensitivity_results :: "(string \<times> int option) list option"

text \<open>
  The names \<open>results\<close> and \<open>sensitivity_results\<close> are unbound (\<open>None\<close>) until the
  cell that assigns them has run.
\<close>

subsection \<open>Steps 2 to 4: variables, objective, constraints\<close>

text \<open>\<^verbatim>\<open>product.replace(' ', '_')\<close>\<close>

definition str_replace :: "char \<Rightarrow> char \<Rightarrow> string \<Rightarrow> string" where
  "str_replace old new s = map (\<lambda>c. if c = old then new else c) s"

text \<open>
  \<^verbatim>\<open>LpVariable(product.replace(' ', '_'), lowBound=0, upBound=..., cat='Integer')\<close>,
  the \<open>i\<close>-th object created.
\<close>

definition new_LpVariable :: "nat \<Rightarrow> string \<Rightarrow> int \<Rightarrow> LpVariable" where
  "new_LpVariable i product ub =
     \<lparr>ident = i, name = str_replace CHR '' '' CHR ''_'' product, lowBound = 0,
      upBound = ub, cat = LpInteger\<rparr>"

text \<open>
  The dictionary comprehension that builds \<^verbatim>\<open>juice_vars\<close>: \<open>n\<close> counts the variable
  objects created so far.
\<close>

fun juice_vars_comp ::
  "DataFrame \<Rightarrow> string list \<Rightarrow> nat \<Rightarrow> (string \<times> LpVariable) list
     \<Rightarrow> error + (string \<times> LpVariable) list" where
  "juice_vars_comp df [] n acc = Inr acc"
| "juice_vars_comp df (product # ps) n acc =
     (case loc df product of
        Inl e \<Rightarrow> Inl e
      | Inr r \<Rightarrow>
          juice_vars_comp df ps (Suc n)
            (dict_set acc product (new_LpVariable n product (MaxUnits r))))"

text \<open>Running a fallible step over a list, stopping at the first exception.\<close>

fun mapM :: "('a \<Rightarrow> error + 'b) \<Rightarrow> 'a list \<Rightarrow> error + 'b list" where
  "mapM f [] = Inr []"
| "mapM f (x # xs) =
     (case f x of
        Inl e \<Rightarrow> Inl e
      | Inr y \<Rightarrow> (case mapM f xs of Inl e \<Rightarrow> Inl e | Inr ys \<Rightarrow> Inr (y # ys)))"

text \<open>
  \<^verbatim>\<open>sum(data.loc[p, col] * juice_vars[p] for p in data.index)\<close>: one term per row, each
  on the variable object stored under the row's product.
\<close>

definition weighted_sum ::
  "(ProductRecord \<Rightarrow> int) \<Rightarrow> DataFrame \<Rightarrow> (string \<times> LpVariable) list
     \<Rightarrow> error + LpAffineExpression" where
  "weighted_sum col df jv =
     mapM (\<lambda>p. case loc df p of
                 Inl e \<Rightarrow> Inl e
               | Inr r \<Rightarrow> (case dict_get jv p of
                             Inl e \<Rightarrow> Inl e
                           | Inr v \<Rightarrow> Inr (ident v, col r)))
          (index df)"

text \<open>
  The three model cells in one, with the two budgets (the literals 240 and 220 of the
  notebook) as parameters. For an empty table Python's \<^verbatim>\<open>sum\<close> is the integer 0 and
  not an expression, and what the library then does with \<^verbatim>\<open>0 <= budget\<close> is not in
  the notebook: the theorems below are about non-empty tables.
\<close>

definition cell_define_model :: "int \<Rightarrow> int \<Rightarrow> DataFrame \<Rightarrow> error + notebook" where
  "cell_define_model machine labor df =
     (case juice_vars_comp df (index df) 0 [] of
        Inl e \<Rightarrow> Inl e
      | Inr jv \<Rightarrow>
     (case weighted_sum Profit df jv of
        Inl e \<Rightarrow> Inl e
      | Inr total_profit \<Rightarrow>
     (case weighted_sum MachineTime df jv of
        Inl e \<Rightarrow> Inl e
      | Inr machine_time \<Rightarrow>
     (case weighted_sum LaborTime df jv of
        Inl e \<Rightarrow> Inl e
      | Inr labor_time \<Rightarrow>
          Inr \<lparr>data = df, max_machine_time = machine, max_labor_time = labor,
               juice_vars = jv, varValue = (\<lambda>_. None),
               model =
                 \<lparr>objective = total_profit,
                  constraints =
                    dict_set
                      (dict_set [] ''Machine_Time'' \<lparr>expr = machine_time, rhs = machine\<rparr>)
                      ''Labor_Time'' \<lparr>expr = labor_time, rhs = labor\<rparr>,
                  status = LpStatusNotSolved\<rparr>,
               stdout = [], results = None, sensitivity_results = None\<rparr>))))"

subsection \<open>Step 5: solve and extract\<close>

text \<open>
  The solver is handed the variables and the problem and reports a status and a value
  for each variable (by identity).
\<close>

type_synonym solver = "LpVariable list \<Rightarrow> LpProblem \<Rightarrow> LpStatus \<times> (nat \<Rightarrow> int option)"

text \<open>
  \<^verbatim>\<open>model.solve()\<close>: the status is stored in the problem and the reported values in the
  variable objects, over whatever they held.
\<close>

definition solve :: "solver \<Rightarrow> notebook \<Rightarrow> notebook" where
  "solve solver nb =
     (let vars = map snd (juice_vars nb) in
      case solver vars (model nb) of
        (st, vals) \<Rightarrow>
          nb\<lparr>model := (model nb)\<lparr>status := st\<rparr>,
             varValue := (\<lambda>i. if i \<in> set (map ident vars) then vals i else varValue nb i)\<rparr>)"

text \<open>\<^verbatim>\<open>{p: juice_vars[p].value() for p in data.index}\<close>\<close>

fun results_comp ::
  "(string \<times> LpVariable) list \<Rightarrow> (nat \<Rightarrow> int option) \<Rightarrow> string list
     \<Rightarrow> (string \<times> int option) list \<Rightarrow> error + (string \<times> int option) list" where
  "results_comp jv vv [] acc = Inr acc"
| "results_comp jv vv (p # ps) acc =
     (case dict_get jv p of
        Inl e \<Rightarrow> Inl e
      | Inr v \<Rightarrow> results_comp jv vv ps (dict_set acc p (vv (ident v))))"

text \<open>The comprehension, then \<^verbatim>\<open>results['Total Profit'] = value(model.objective)\<close>.\<close>

definition extract_results :: "notebook \<Rightarrow> error + (string \<times> int option) list" where
  "extract_results nb =
     (case results_comp (juice_vars nb) (varValue nb) (index (data nb)) [] of
        Inl e \<Rightarrow> Inl e
      | Inr r \<Rightarrow>
          Inr (dict_set r ''Total Profit'' (expr_value (varValue nb) (objective (model nb)))))"

definition cell_solve :: "solver \<Rightarrow> notebook \<Rightarrow> error + notebook" where
  "cell_solve solver nb =
     (let nb1 = solve solver nb;
          nb2 = nb1\<lparr>stdout := stdout nb1 @ [''Status: '' @ LpStatus_str (status (model nb1))]\<rparr>
      in case extract_results nb2 of
           Inl e \<Rightarrow> Inl e
         | Inr r \<Rightarrow> Inr (nb2\<lparr>results := Some r\<rparr>))"

subsection \<open>Step 7: change one right-hand side and solve again\<close>

text \<open>
  \<^verbatim>\<open>model.constraints[cname].changeRHS(v)\<close>. The result pairs the outcome with the
  notebook as the statement leaves it, so that an exception shows the state it leaves
  behind.
\<close>

definition constraints_changeRHS ::
  "notebook \<Rightarrow> string \<Rightarrow> int \<Rightarrow> (error + unit) \<times> notebook" where
  "constraints_changeRHS nb cname v =
     (case dict_get (constraints (model nb)) cname of
        Inl e \<Rightarrow> (Inl e, nb)
      | Inr c \<Rightarrow>
          (Inr (),
           nb\<lparr>model := (model nb)\<lparr>constraints :=
                 dict_set (constraints (model nb)) cname (changeRHS c v)\<rparr>\<rparr>))"

definition cell_sensitivity :: "solver \<Rightarrow> notebook \<Rightarrow> error + notebook" where
  "cell_sensitivity solver nb =
     (case constraints_changeRHS nb ''Machine_Time'' (max_machine_time nb + 20) of
        (Inl e, _) \<Rightarrow> Inl e
      | (Inr _, nb1) \<Rightarrow>
          (let nb2 = solve solver nb1
           in case extract_results nb2 of
                Inl e \<Rightarrow> Inl e
              | Inr r \<Rightarrow> Inr (nb2\<lparr>sensitivity_results := Some r\<rparr>)))"

text \<open>Running the cells in order: an exception in a cell stops the run.\<close>

definition then_cell ::
  "error + notebook \<Rightarrow> (notebook \<Rightarrow> error + notebook) \<Rightarrow> error + notebook" where
  "then_cell r cell = (case r of Inl e \<Rightarrow> Inl e | Inr nb \<Rightarrow> cell nb)"

subsection \<open>The integer program and what a solver owes\<close>

definition expr_eval :: "(nat \<Rightarrow> int) \<Rightarrow> LpAffineExpression \<Rightarrow> int" where
  "expr_eval x e = sum_list (map (\<lambda>(i, c). c * x i) e)"

text \<open>
  An assignment of integers to the variables is feasible when every variable lies within
  its bounds and every constraint holds.
\<close>

definition feasible :: "LpVariable list \<Rightarrow> LpProblem \<Rightarrow> (nat \<Rightarrow> int) \<Rightarrow> bool" where
  "feasible vars m x \<longleftrightarrow>
     (\<forall>v \<in> set vars. lowBound v \<le> x (ident v) \<and> x (ident v) \<le> upBound v) \<and>
     (\<forall>(n, c) \<in> set (constraints m). expr_eval x (expr c) \<le> rhs c)"

definition optimal :: "LpVariable list \<Rightarrow> LpProblem \<Rightarrow> (nat \<Rightarrow> int) \<Rightarrow> bool" where
  "optimal vars m x \<longleftrightarrow>
     feasible vars m x \<and>
     (\<forall>y. feasible vars m y \<longrightarrow> expr_eval y (objective m) \<le> expr_eval x (objective m))"

text \<open>The assignment that gives the \<open>i\<close>-th variable the \<open>i\<close>-th quantity of a list.\<close>

definition assignment :: "int list \<Rightarrow> nat \<Rightarrow> int" where
  "assignment qs i = (if i < length qs then qs ! i else 0)"

text \<open>
  Modelled from the spec: the solver (PuLP's default solver, a program outside the
  notebook). The spec's Solver Adapter performs integer-linear optimisation and reports a
  termination status plus, when optimal, a value for every decision variable. On a given
  problem that is: the status is Optimal whenever the program has an optimum, and an
  Optimal status comes with the values of some optimum.
\<close>

definition solver_contract :: "solver \<Rightarrow> LpVariable list \<Rightarrow> LpProblem \<Rightarrow> bool" where
  "solver_contract solver vars m \<longleftrightarrow>
     (case solver vars m of
        (st, vals) \<Rightarrow>
          ((\<exists>x. optimal vars m x) \<longrightarrow> st = LpStatusOptimal) \<and>
          (st = LpStatusOptimal \<longrightarrow>
             (\<exists>x. optimal vars m x \<and> (\<forall>v \<in> set vars. vals (ident v) = Some (x (ident v))))))"

text \<open>
  The values the notebook's two output cells show, as a solver: for the problem whose
  machine-time bound is 240 the first output, for 260 the second.
\<close>

definition recorded_values :: "int list \<Rightarrow> nat \<Rightarrow> int option" where
  "recorded_values qs i = (if i < length qs then Some (qs ! i) else None)"

definition recorded_solver :: solver where
  "recorded_solver vars m =
     (case map_of (constraints m) ''Machine_Time'' of
        None \<Rightarrow> (LpStatusUndefined, (\<lambda>_. None))
      | Some c \<Rightarrow>
          if rhs c = 240 then (LpStatusOptimal, recorded_values [56, 36, 0])
          else if rhs c = 260 then (LpStatusOptimal, recorded_values [60, 32, 1])
          else (LpStatusUndefined, (\<lambda>_. None)))"

text \<open>
  What the model cells build: the \<open>i\<close>-th row's variable and the \<open>i\<close>-th term of a
  column's weighted sum, and the variables and problem built from the juice table.
\<close>

abbreviation row_var :: "nat \<times> string \<times> ProductRecord \<Rightarrow> string \<times> LpVariable" where
  "row_var \<equiv> (\<lambda>(i, p, r). (p, new_LpVariable i p (MaxUnits r)))"

abbreviation row_term ::
  "(ProductRecord \<Rightarrow> int) \<Rightarrow> nat \<times> string \<times> ProductRecord \<Rightarrow> nat \<times> int" where
  "row_term col \<equiv> (\<lambda>(i, p, r). (i, col r))"

abbreviation built_juice_vars :: "(string \<times> LpVariable) list" where
  "built_juice_vars \<equiv>
     [(''Apple Juice'',
       \<lparr>ident = 0, name = ''Apple_Juice'', lowBound = 0, upBound = 60, cat = LpInteger\<rparr>),
      (''Orange Juice'',
       \<lparr>ident = 1, name = ''Orange_Juice'', lowBound = 0, upBound = 60, cat = LpInteger\<rparr>),
      (''Mixed Fruit Juice'',
       \<lparr>ident = 2, name = ''Mixed_Fruit_Juice'', lowBound = 0, upBound = 60,
        cat = LpInteger\<rparr>)]"

abbreviation juice_problem :: "int \<Rightarrow> int \<Rightarrow> LpStatus \<Rightarrow> LpProblem" where
  "juice_problem machine labor st \<equiv>
     \<lparr>objective = [(0, 25), (1, 30), (2, 40)],
      constraints =
        [(''Machine_Time'', \<lparr>expr = [(0, 3), (1, 2), (2, 4)], rhs = machine\<rparr>),
         (''Labor_Time'', \<lparr>expr = [(0, 2), (1, 3), (2, 4)], rhs = labor\<rparr>)],
      status = st\<rparr>"

section \<open>Dictionaries and the model cells\<close>

lemma dict_set_append: "k \<notin> fst ` set d \<Longrightarrow> dict_set d k v = d @ [(k, v)]"
  by (induction d) auto

lemma map_of_dict_set: "map_of (dict_set d k v) = (map_of d)(k \<mapsto> v)"
  by (induction d) (auto simp add: fun_eq_iff)

lemma keys_dict_set_present: "k \<in> fst ` set d \<Longrightarrow> map fst (dict_set d k v) = map fst d"
  by (induction d) force+

lemma dict_get_dict_set:
  "dict_get (dict_set d k v) k' = (if k' = k then Inr v else dict_get d k')"
  by (simp add: dict_get_def map_of_dict_set)

lemma loc_row: "distinct (map fst df) \<Longrightarrow> (p, r) \<in> set df \<Longrightarrow> loc df p = Inr r"
  by (simp add: loc_def)

lemma dict_get_entry: "distinct (map fst d) \<Longrightarrow> (k, v) \<in> set d \<Longrightarrow> dict_get d k = Inr v"
  by (simp add: dict_get_def)

text \<open>
  The comprehension over distinct products appends one fresh variable per row; the
  accumulator and the counter are generalised for the induction.
\<close>

lemma juice_vars_comp_rows:
  assumes "distinct (map fst rows)"
    and "\<forall>(p, r) \<in> set rows. loc df p = Inr r"
    and "fst ` set acc \<inter> fst ` set rows = {}"
  shows "juice_vars_comp df (map fst rows) n acc = Inr (acc @ map row_var (enumerate n rows))"
  using assms
proof (induction rows arbitrary: n acc)
  case Nil
  then show ?case by simp
next
  case (Cons row rows)
  obtain p r where row: "row = (p, r)" by (cases row)
  from Cons.prems row have fresh: "p \<notin> fst ` set acc" and lp: "loc df p = Inr r" by auto
  let ?acc = "acc @ [(p, new_LpVariable n p (MaxUnits r))]"
  from Cons.prems row have "fst ` set ?acc \<inter> fst ` set rows = {}" by auto
  with Cons.prems have "juice_vars_comp df (map fst rows) (Suc n) ?acc
      = Inr (?acc @ map row_var (enumerate (Suc n) rows))"
    by (intro Cons.IH) auto
  with row fresh lp show ?case by (simp add: dict_set_append)
qed

lemma juice_vars_comp_table:
  assumes "distinct (index df)"
  shows "juice_vars_comp df (index df) 0 [] = Inr (map row_var (enumerate 0 df))"
proof -
  from assms have "\<forall>(p, r) \<in> set df. loc df p = Inr r"
    by (auto simp add: index_def loc_row)
  with assms have "juice_vars_comp df (map fst df) 0 [] = Inr ([] @ map row_var (enumerate 0 df))"
    by (intro juice_vars_comp_rows) (simp_all add: index_def)
  then show ?thesis by (simp add: index_def)
qed

lemma keys_row_vars: "map fst (map row_var (enumerate n df)) = map fst df"
  by (induction df arbitrary: n) auto

lemma mapM_all:
  "\<forall>x \<in> set xs. f (h x) = Inr (g x) \<Longrightarrow> mapM f (map h xs) = Inr (map g xs)"
  by (induction xs) auto

lemma row_var_entry:
  "(i, p, r) \<in> set (enumerate n df) \<Longrightarrow>
     (p, new_LpVariable i p (MaxUnits r)) \<in> set (map row_var (enumerate n df))"
  by force

lemma weighted_sum_table:
  assumes "distinct (index df)"
  shows "weighted_sum col df (map row_var (enumerate 0 df))
           = Inr (map (row_term col) (enumerate 0 df))"
proof -
  let ?jv = "map row_var (enumerate 0 df)"
  let ?f = "\<lambda>p. case loc df p of
                 Inl e \<Rightarrow> Inl e
               | Inr r \<Rightarrow> (case dict_get ?jv p of
                             Inl e \<Rightarrow> Inl e
                           | Inr v \<Rightarrow> Inr (ident v, col r))"
  from assms have dk: "distinct (map fst ?jv)" by (simp only: keys_row_vars index_def)
  have "?f ((fst \<circ> snd) x) = Inr (row_term col x)" if "x \<in> set (enumerate 0 df)" for x
  proof -
    obtain i p r where x: "x = (i, p, r)" by (cases x)
    with that have "(p, r) \<in> set df" by (auto simp add: in_set_enumerate_eq dest: nth_mem)
    with assms have "loc df p = Inr r" by (simp add: loc_row index_def)
    moreover from that x have "dict_get ?jv p = Inr (new_LpVariable i p (MaxUnits r))"
      by (intro dict_get_entry [OF dk] row_var_entry) simp
    ultimately show ?thesis by (simp add: x new_LpVariable_def)
  qed
  then have "mapM ?f (map (fst \<circ> snd) (enumerate 0 df)) = Inr (map (row_term col) (enumerate 0 df))"
    by (intro mapM_all) blast
  moreover have "map (fst \<circ> snd) (enumerate 0 df) = index df"
    by (simp add: index_def map_snd_enumerate flip: map_map)
  ultimately show ?thesis by (simp add: weighted_sum_def)
qed

lemma define_model_table:
  assumes "distinct (index df)"
  shows "cell_define_model machine labor df =
     Inr \<lparr>data = df, max_machine_time = machine, max_labor_time = labor,
          juice_vars = map row_var (enumerate 0 df), varValue = (\<lambda>_. None),
          model =
            \<lparr>objective = map (row_term Profit) (enumerate 0 df),
             constraints =
               [(''Machine_Time'',
                 \<lparr>expr = map (row_term MachineTime) (enumerate 0 df), rhs = machine\<rparr>),
                (''Labor_Time'',
                 \<lparr>expr = map (row_term LaborTime) (enumerate 0 df), rhs = labor\<rparr>)],
             status = LpStatusNotSolved\<rparr>,
          stdout = [], results = None, sensitivity_results = None\<rparr>"
  using assms
  by (simp add: cell_define_model_def juice_vars_comp_table weighted_sum_table)

lemma built_constraints:
  assumes "cell_define_model machine labor df = Inr nb"
  shows "\<exists>mt lt. constraints (model nb) =
           [(''Machine_Time'', \<lparr>expr = mt, rhs = machine\<rparr>),
            (''Labor_Time'', \<lparr>expr = lt, rhs = labor\<rparr>)]"
  using assms by (auto simp add: cell_define_model_def split: sum.splits)

lemma results_comp_entries:
  assumes "distinct (map fst pvs)"
    and "\<forall>(p, v) \<in> set pvs. dict_get jv p = Inr v"
    and "fst ` set acc \<inter> fst ` set pvs = {}"
  shows "results_comp jv vv (map fst pvs) acc
           = Inr (acc @ map (\<lambda>(p, v). (p, vv (ident v))) pvs)"
  using assms
proof (induction pvs arbitrary: acc)
  case Nil
  then show ?case by simp
next
  case (Cons pv pvs)
  obtain p v where pv: "pv = (p, v)" by (cases pv)
  from Cons.prems pv have fresh: "p \<notin> fst ` set acc" and g: "dict_get jv p = Inr v" by auto
  let ?acc = "acc @ [(p, vv (ident v))]"
  from Cons.prems pv have "fst ` set ?acc \<inter> fst ` set pvs = {}" by auto
  with Cons.prems have "results_comp jv vv (map fst pvs) ?acc
      = Inr (?acc @ map (\<lambda>(p, v). (p, vv (ident v))) pvs)"
    by (intro Cons.IH) auto
  with pv fresh g show ?case by (simp add: dict_set_append)
qed

lemma results_comp_juice_vars:
  assumes "distinct (map fst jv)"
  shows "results_comp jv vv (map fst jv) [] = Inr (map (\<lambda>(p, v). (p, vv (ident v))) jv)"
proof -
  from assms have "\<forall>(p, v) \<in> set jv. dict_get jv p = Inr v"
    by (auto simp add: dict_get_entry)
  with assms have "results_comp jv vv (map fst jv) []
      = Inr ([] @ map (\<lambda>(p, v). (p, vv (ident v))) jv)"
    by (intro results_comp_entries) simp_all
  then show ?thesis by simp
qed

section \<open>The juice table\<close>

lemma juice_build:
  "cell_define_model machine labor juice_data =
     Inr \<lparr>data = juice_data, max_machine_time = machine, max_labor_time = labor,
          juice_vars = built_juice_vars, varValue = (\<lambda>_. None),
          model = juice_problem machine labor LpStatusNotSolved,
          stdout = [], results = None, sensitivity_results = None\<rparr>"
  by (simp add: cell_define_model_def juice_data_def index_def loc_def weighted_sum_def
      dict_get_def new_LpVariable_def str_replace_def)

lemma juice_feasible_iff:
  "feasible (map snd built_juice_vars) (juice_problem machine labor st) x \<longleftrightarrow>
     0 \<le> x 0 \<and> x 0 \<le> 60 \<and> 0 \<le> x 1 \<and> x 1 \<le> 60 \<and> 0 \<le> x 2 \<and> x 2 \<le> 60 \<and>
     3 * x 0 + 2 * x 1 + 4 * x 2 \<le> machine \<and> 2 * x 0 + 3 * x 1 + 4 * x 2 \<le> labor"
  by (auto simp add: feasible_def expr_eval_def)

lemma juice_objective:
  "expr_eval x (objective (juice_problem machine labor st)) = 25 * x 0 + 30 * x 1 + 40 * x 2"
  by (simp add: expr_eval_def)

text \<open>
  With 240 machine hours the optimum is unique: three times the machine slack plus eight
  times the labour slack plus four times the mixed-juice quantity is what the profit
  misses of 2480.
\<close>

lemma juice_optimal_240:
  "optimal (map snd built_juice_vars) (juice_problem 240 220 st) x \<longleftrightarrow>
     x 0 = 56 \<and> x 1 = 36 \<and> x 2 = 0"
proof
  assume opt: "optimal (map snd built_juice_vars) (juice_problem 240 220 st) x"
  have "feasible (map snd built_juice_vars) (juice_problem 240 220 st) (assignment [56, 36, 0])"
    unfolding juice_feasible_iff by (simp add: assignment_def)
  with opt have "expr_eval (assignment [56, 36, 0]) (objective (juice_problem 240 220 st))
      \<le> expr_eval x (objective (juice_problem 240 220 st))"
    unfolding optimal_def by blast
  then have best: "2480 \<le> 25 * x 0 + 30 * x 1 + 40 * x 2"
    unfolding juice_objective by (simp add: assignment_def)
  from opt have feas: "0 \<le> x 2" "3 * x 0 + 2 * x 1 + 4 * x 2 \<le> 240"
      "2 * x 0 + 3 * x 1 + 4 * x 2 \<le> 220"
    unfolding optimal_def juice_feasible_iff by simp_all
  from best feas show "x 0 = 56 \<and> x 1 = 36 \<and> x 2 = 0" by arith
next
  assume x: "x 0 = 56 \<and> x 1 = 36 \<and> x 2 = 0"
  have "25 * y 0 + 30 * y 1 + 40 * y 2 \<le> 2480"
    if "0 \<le> y 2" "3 * y 0 + 2 * y 1 + 4 * y 2 \<le> 240" "2 * y 0 + 3 * y 1 + 4 * y 2 \<le> 220"
    for y :: "nat \<Rightarrow> int"
    using that by arith
  with x show "optimal (map snd built_juice_vars) (juice_problem 240 220 st) x"
    unfolding optimal_def juice_feasible_iff juice_objective by simp
qed

lemma recorded_solver_contract_240:
  "solver_contract recorded_solver (map snd built_juice_vars) (juice_problem 240 220 st)"
proof -
  have "optimal (map snd built_juice_vars) (juice_problem 240 220 st) (assignment [56, 36, 0])"
    unfolding juice_optimal_240 by (simp add: assignment_def)
  moreover have "\<forall>v \<in> set (map snd built_juice_vars).
      recorded_values [56, 36, 0] (ident v) = Some (assignment [56, 36, 0] (ident v))"
    by (simp add: recorded_values_def assignment_def)
  ultimately show ?thesis
    unfolding solver_contract_def recorded_solver_def by (simp del: set_map) blast
qed

lemma solve_fields:
  "juice_vars (solve solver nb) = juice_vars nb"
  "data (solve solver nb) = data nb"
  "max_machine_time (solve solver nb) = max_machine_time nb"
  "stdout (solve solver nb) = stdout nb"
  "results (solve solver nb) = results nb"
  "sensitivity_results (solve solver nb) = sensitivity_results nb"
  "objective (model (solve solver nb)) = objective (model nb)"
  "constraints (model (solve solver nb)) = constraints (model nb)"
  "status (model (solve solver nb)) = fst (solver (map snd (juice_vars nb)) (model nb))"
  by (simp_all add: solve_def split: prod.splits)

lemma extract_results_shape:
  assumes "distinct (map fst (juice_vars nb))"
    and "index (data nb) = map fst (juice_vars nb)"
  shows "extract_results nb =
     Inr (dict_set (map (\<lambda>(p, v). (p, varValue nb (ident v))) (juice_vars nb))
            ''Total Profit'' (expr_value (varValue nb) (objective (model nb))))"
  using assms by (simp add: extract_results_def results_comp_juice_vars)

lemma cell_solve_eq:
  assumes "distinct (map fst (juice_vars nb))"
    and "index (data nb) = map fst (juice_vars nb)"
  shows "cell_solve solver nb =
     Inr ((solve solver nb)
       \<lparr>stdout := stdout nb @ [''Status: '' @ LpStatus_str (status (model (solve solver nb)))],
        results := Some (dict_set
            (map (\<lambda>(p, v). (p, varValue (solve solver nb) (ident v))) (juice_vars nb))
            ''Total Profit''
            (expr_value (varValue (solve solver nb)) (objective (model nb))))\<rparr>)"
proof -
  let ?nb2 = "(solve solver nb)
       \<lparr>stdout := stdout (solve solver nb) @ [''Status: '' @ LpStatus_str (status (model (solve solver nb)))]\<rparr>"
  from assms have "distinct (map fst (juice_vars ?nb2))"
    and "index (data ?nb2) = map fst (juice_vars ?nb2)"
    by (simp_all add: solve_fields)
  then have "extract_results ?nb2 =
     Inr (dict_set (map (\<lambda>(p, v). (p, varValue ?nb2 (ident v))) (juice_vars ?nb2))
            ''Total Profit'' (expr_value (varValue ?nb2) (objective (model ?nb2))))"
    by (rule extract_results_shape)
  then show ?thesis
    by (simp add: cell_solve_def Let_def solve_fields)
qed

lemma keys_row_vars_comp: "map (fst \<circ> row_var) (enumerate n df) = map fst df"
  using keys_row_vars [of n df] by simp

lemma built_invariant:
  assumes "cell_define_model machine labor df = Inr nb" and "distinct (index df)"
  shows "distinct (map fst (juice_vars nb))" and "index (data nb) = map fst (juice_vars nb)"
    and "data nb = df" and "stdout nb = []"
  using assms
  by (auto simp add: define_model_table keys_row_vars_comp index_def simp del: enumerate_simps)

lemma keys_results:
  "map fst (dict_set (map (\<lambda>(p, v). (p, f v)) jv) k x) =
     (if k \<in> fst ` set jv then map fst jv else map fst jv @ [k])"
  by (induction jv) (auto, force+)


lemma bounds_row_vars:
  "map (\<lambda>(p, v). (p, lowBound v, upBound v)) (map row_var (enumerate n df)) =
     map (\<lambda>(p, r). (p, 0, MaxUnits r)) df"
  by (induction df arbitrary: n) (auto simp add: new_LpVariable_def)


lemma row_position:
  assumes "(p, r) \<in> set df"
  shows "\<exists>i. (i, p, r) \<in> set (enumerate 0 df)"
proof -
  from assms obtain i where "i < length df" "df ! i = (p, r)" by (auto simp add: in_set_conv_nth)
  then have "(i, p, r) \<in> set (enumerate 0 df)" by (simp add: in_set_enumerate_eq)
  then show ?thesis ..
qed

section \<open>The claims\<close>

text \<open>
  C1. For the juice table with 240 machine hours and 220 labour hours, building the
  model, solving it and extracting the result gives status Optimal, the quantities
  Apple Juice 56, Orange Juice 36, Mixed Fruit Juice 0 and the objective value 2480, and
  that assignment is an optimum of the integer program: it is feasible and no feasible
  integer assignment has a higher profit. The solver is any solver that keeps its
  contract on the built problem; the optimum is unique, so the contract fixes the
  quantities.
\<close>

theorem juice_optimum:
  assumes build: "cell_define_model 240 220 juice_data = Inr nb"
    and contract: "solver_contract solver (map snd (juice_vars nb)) (model nb)"
  shows "\<exists>nb'. cell_solve solver nb = Inr nb' \<and>
           status (model nb') = LpStatusOptimal \<and>
           stdout nb' = [''Status: Optimal''] \<and>
           results nb' =
             Some [(''Apple Juice'', Some 56), (''Orange Juice'', Some 36),
                   (''Mixed Fruit Juice'', Some 0), (''Total Profit'', Some 2480)] \<and>
           optimal (map snd (juice_vars nb)) (model nb) (assignment [56, 36, 0])"
proof -
  let ?vars = "map snd built_juice_vars"
  let ?m = "juice_problem 240 220 LpStatusNotSolved"
  from build have nb: "nb = \<lparr>data = juice_data, max_machine_time = 240, max_labor_time = 220,
          juice_vars = built_juice_vars, varValue = (\<lambda>_. None),
          model = ?m, stdout = [], results = None, sensitivity_results = None\<rparr>"
    by (simp add: juice_build)
  obtain st vals where sv: "solver ?vars ?m = (st, vals)"
    by (cases "solver ?vars ?m")
  have opt: "optimal ?vars ?m (assignment [56, 36, 0])"
    unfolding juice_optimal_240 by (simp add: assignment_def)
  from contract have c: "((\<exists>x. optimal ?vars ?m x) \<longrightarrow> st = LpStatusOptimal) \<and>
     (st = LpStatusOptimal \<longrightarrow>
        (\<exists>x. optimal ?vars ?m x \<and> (\<forall>v \<in> set ?vars. vals (ident v) = Some (x (ident v)))))"
    unfolding solver_contract_def nb using sv by simp
  from c opt have st: "st = LpStatusOptimal" by blast
  with c obtain x where x: "optimal ?vars ?m x"
      "\<forall>v \<in> set ?vars. vals (ident v) = Some (x (ident v))"
    by blast
  from x(1) have "x 0 = 56" "x 1 = 36" "x 2 = 0" unfolding juice_optimal_240 by simp_all
  with x(2) have vals: "vals 0 = Some 56" "vals (Suc 0) = Some 36" "vals 2 = Some 0" by simp_all
  show ?thesis
    unfolding nb cell_solve_def solve_def extract_results_def
    using sv st vals opt by (simp add: index_def juice_data_def dict_get_def)
qed

theorem juice_optimum_witness:
  "\<exists>nb. cell_define_model 240 220 juice_data = Inr nb \<and>
     solver_contract recorded_solver (map snd (juice_vars nb)) (model nb) \<and>
     (\<exists>nb'. cell_solve recorded_solver nb = Inr nb' \<and>
        status (model nb') = LpStatusOptimal \<and>
        results nb' =
          Some [(''Apple Juice'', Some 56), (''Orange Juice'', Some 36),
                (''Mixed Fruit Juice'', Some 0), (''Total Profit'', Some 2480)])"
proof -
  obtain nb where build: "cell_define_model 240 220 juice_data = Inr nb"
    by (simp add: juice_build)
  then have contract: "solver_contract recorded_solver (map snd (juice_vars nb)) (model nb)"
    using recorded_solver_contract_240 [of LpStatusNotSolved] by (auto simp add: juice_build)
  from juice_optimum [OF build contract] build contract show ?thesis by blast
qed



text \<open>
  C4. The claim is that an empty table, a negative cap or a negative budget makes the
  build fail with a validation error. The model cells check nothing: a negative cap is
  passed to the variable as its upper bound, and the build returns a model.
\<close>

theorem negative_cap_builds:
  "cell_define_model 240 220
     [(''Apple Juice'', \<lparr>Profit = 25, MachineTime = 3, LaborTime = 2, MaxUnits = - 5\<rparr>)] =
   Inr \<lparr>data =
          [(''Apple Juice'', \<lparr>Profit = 25, MachineTime = 3, LaborTime = 2, MaxUnits = - 5\<rparr>)],
        max_machine_time = 240, max_labor_time = 220,
        juice_vars =
          [(''Apple Juice'',
            \<lparr>ident = 0, name = ''Apple_Juice'', lowBound = 0, upBound = - 5,
             cat = LpInteger\<rparr>)],
        varValue = (\<lambda>_. None),
        model =
          \<lparr>objective = [(0, 25)],
           constraints =
             [(''Machine_Time'', \<lparr>expr = [(0, 3)], rhs = 240\<rparr>),
              (''Labor_Time'', \<lparr>expr = [(0, 2)], rhs = 220\<rparr>)],
           status = LpStatusNotSolved\<rparr>,
        stdout = [], results = None, sensitivity_results = None\<rparr>"
  by (simp add: cell_define_model_def index_def loc_def weighted_sum_def
      dict_get_def new_LpVariable_def str_replace_def)


text \<open>
  C4, as the cells behave. For every non-empty table with unique product names, whatever
  the signs of the caps and of the two budgets, the build returns a model: every row has
  its variable, with lower bound 0 and the row's cap as upper bound, unchanged, and the
  two constraints carry the budgets as given. Nothing is clamped, dropped or refused.
\<close>

theorem build_unvalidated:
  assumes "df \<noteq> []" and "distinct (index df)"
  shows "\<exists>nb. cell_define_model machine labor df = Inr nb \<and>
           map (\<lambda>(p, v). (p, lowBound v, upBound v)) (juice_vars nb) =
             map (\<lambda>(p, r). (p, 0, MaxUnits r)) df \<and>
           map (\<lambda>(n, c). (n, rhs c)) (constraints (model nb)) =
             [(''Machine_Time'', machine), (''Labor_Time'', labor)]"
  using assms(2) by (simp add: define_model_table bounds_row_vars del: map_map)

theorem build_unvalidated_witness:
  "\<exists>nb. cell_define_model (- 10) (- 20)
           [(''Apple Juice'', \<lparr>Profit = 25, MachineTime = 3, LaborTime = 2, MaxUnits = - 5\<rparr>),
            (''Orange Juice'', \<lparr>Profit = 30, MachineTime = 2, LaborTime = 3, MaxUnits = 60\<rparr>)]
         = Inr nb \<and>
       map (\<lambda>(p, v). (p, lowBound v, upBound v)) (juice_vars nb) =
         [(''Apple Juice'', 0, - 5), (''Orange Juice'', 0, 60)] \<and>
       map (\<lambda>(n, c). (n, rhs c)) (constraints (model nb)) =
         [(''Machine_Time'', - 10), (''Labor_Time'', - 20)]"
  using build_unvalidated [of
      "[(''Apple Juice'', \<lparr>Profit = 25, MachineTime = 3, LaborTime = 2, MaxUnits = - 5\<rparr>),
        (''Orange Juice'', \<lparr>Profit = 30, MachineTime = 2, LaborTime = 3, MaxUnits = 60\<rparr>)]"
      "- 10" "- 20"]
  by (simp add: index_def)


text \<open>
  C5. The claim is that two products whose names become the same variable name make the
  build fail. The cells do not compare names: \<^verbatim>\<open>A B\<close> and \<^verbatim>\<open>A_B\<close> each get a
  variable object of their own, both named \<^verbatim>\<open>A_B\<close>, and the build returns a model.
\<close>

theorem colliding_names_build:
  "cell_define_model 240 220
     [(''A B'', \<lparr>Profit = 25, MachineTime = 3, LaborTime = 2, MaxUnits = 60\<rparr>),
      (''A_B'', \<lparr>Profit = 30, MachineTime = 2, LaborTime = 3, MaxUnits = 60\<rparr>)] =
   Inr \<lparr>data =
          [(''A B'', \<lparr>Profit = 25, MachineTime = 3, LaborTime = 2, MaxUnits = 60\<rparr>),
           (''A_B'', \<lparr>Profit = 30, MachineTime = 2, LaborTime = 3, MaxUnits = 60\<rparr>)],
        max_machine_time = 240, max_labor_time = 220,
        juice_vars =
          [(''A B'',
            \<lparr>ident = 0, name = ''A_B'', lowBound = 0, upBound = 60, cat = LpInteger\<rparr>),
           (''A_B'',
            \<lparr>ident = 1, name = ''A_B'', lowBound = 0, upBound = 60, cat = LpInteger\<rparr>)],
        varValue = (\<lambda>_. None),
        model =
          \<lparr>objective = [(0, 25), (1, 30)],
           constraints =
             [(''Machine_Time'', \<lparr>expr = [(0, 3), (1, 2)], rhs = 240\<rparr>),
              (''Labor_Time'', \<lparr>expr = [(0, 2), (1, 3)], rhs = 220\<rparr>)],
           status = LpStatusNotSolved\<rparr>,
        stdout = [], results = None, sensitivity_results = None\<rparr>"
  by (simp add: cell_define_model_def index_def loc_def weighted_sum_def
      dict_get_def new_LpVariable_def str_replace_def)


text \<open>
  C5, as the cells behave. For every table with unique product names, two different
  products whose names agree after replacing spaces by underscores each get their own
  variable: the build returns a model with one variable per row, and the two variables
  are different objects with the same name.
\<close>

theorem build_name_collision:
  assumes "distinct (index df)"
    and "(p, r) \<in> set df" and "(q, r') \<in> set df" and "p \<noteq> q"
    and "str_replace CHR '' '' CHR ''_'' p = str_replace CHR '' '' CHR ''_'' q"
  shows "\<exists>nb vp vq. cell_define_model machine labor df = Inr nb \<and>
           length (juice_vars nb) = length df \<and>
           dict_get (juice_vars nb) p = Inr vp \<and> dict_get (juice_vars nb) q = Inr vq \<and>
           ident vp \<noteq> ident vq \<and> name vp = name vq"
proof -
  let ?jv = "map row_var (enumerate 0 df)"
  from assms(1) have dk: "distinct (map fst ?jv)" by (simp only: keys_row_vars index_def)
  from row_position [OF assms(2)] obtain i where i: "(i, p, r) \<in> set (enumerate 0 df)" ..
  from row_position [OF assms(3)] obtain j where j: "(j, q, r') \<in> set (enumerate 0 df)" ..
  from i have gp: "dict_get ?jv p = Inr (new_LpVariable i p (MaxUnits r))"
    by (intro dict_get_entry [OF dk] row_var_entry)
  from j have gq: "dict_get ?jv q = Inr (new_LpVariable j q (MaxUnits r'))"
    by (intro dict_get_entry [OF dk] row_var_entry)
  from i j assms(4) have "i \<noteq> j" by (auto simp add: in_set_enumerate_eq)
  with gp gq assms(1,5) show ?thesis
    by (simp add: define_model_table new_LpVariable_def del: enumerate_simps)
qed

theorem build_name_collision_witness:
  "\<exists>nb vp vq.
     cell_define_model 240 220
       [(''A B'', \<lparr>Profit = 25, MachineTime = 3, LaborTime = 2, MaxUnits = 60\<rparr>),
        (''A_B'', \<lparr>Profit = 30, MachineTime = 2, LaborTime = 3, MaxUnits = 60\<rparr>)] = Inr nb \<and>
     length (juice_vars nb) = 2 \<and>
     dict_get (juice_vars nb) ''A B'' = Inr vp \<and> dict_get (juice_vars nb) ''A_B'' = Inr vq \<and>
     ident vp \<noteq> ident vq \<and> name vp = name vq"
  using build_name_collision [of
      "[(''A B'', \<lparr>Profit = 25, MachineTime = 3, LaborTime = 2, MaxUnits = 60\<rparr>),
        (''A_B'', \<lparr>Profit = 30, MachineTime = 2, LaborTime = 3, MaxUnits = 60\<rparr>)]"
      "''A B''" "\<lparr>Profit = 25, MachineTime = 3, LaborTime = 2, MaxUnits = 60\<rparr>"
      "''A_B''" "\<lparr>Profit = 30, MachineTime = 2, LaborTime = 3, MaxUnits = 60\<rparr>" 240 220]
  by (simp add: index_def str_replace_def numeral_2_eq_2)

end
